theory Spec2Isabelle
  imports Main
begin

section \<open>Data model of the assistant page\<close>

text \<open>
  The page component \<^verbatim>\<open>src/frontend/src/app/insurance/page.tsx\<close> keeps its state in
  React state cells and changes it from event handlers. Each handler is embedded as a
  function from the state at the time of the event to the state after it, together with
  the effects it issues (network requests, alerts, console messages). An \<^verbatim>\<open>async\<close>
  handler is split at its \<^verbatim>\<open>await\<close>: one function for the part that runs at once, one
  for the continuation that runs when the awaited promise settles.
\<close>

datatype message_type = human | ai

record ChatMessage =
  msg_type :: message_type
  content :: string

record LatestResponse =
  answer :: string
  thoughts :: string
  validation :: string
  source :: string

text \<open>
  \<^verbatim>\<open>APIResponse\<close>: the parsed body. A field that is missing, \<^verbatim>\<open>undefined\<close> or
  \<^verbatim>\<open>null\<close> is \<open>None\<close>; an array, also the empty one, is truthy in JavaScript and is
  \<open>Some\<close>.
\<close>

record APIResponse =
  data_history :: "ChatMessage list option"
  data_latest_response :: "LatestResponse option"

record File =
  file_name :: string

datatype attachment_type = image_file | doc_file

record AttachedFile =
  file_handle :: File
  file_type :: attachment_type

record page_state =
  history :: "ChatMessage list"
  latestResponse :: "LatestResponse option"
  query :: string
  isLoading :: bool
  showUploadMenu :: bool
  attachedFile :: "AttachedFile option"
  isListening :: bool
  lang :: string

definition initial_state :: page_state where
  "initial_state =
     \<lparr>history = [], latestResponse = None, query = [], isLoading = False,
      showUploadMenu = False, attachedFile = None, isListening = False,
      lang = ''en-US''\<rparr>"

subsection \<open>Requests and effects\<close>

datatype form_value = text_value string | file_value File

type_synonym FormData = "(string \<times> form_value) list"

record request =
  url :: string
  http_method :: string
  body :: "FormData option"
  credentials :: string

record recognition =
  rec_lang :: string
  interimResults :: bool
  maxAlternatives :: nat

datatype effect =
    alert string
  | console_error string
  | fetch request
  | recognition_start recognition

text \<open>
  What a \<^verbatim>\<open>fetch(...)\<close> followed by \<^verbatim>\<open>res.json()\<close> can come to: the fetch promise
  rejects, the body is not JSON, the body is the JSON value \<^verbatim>\<open>null\<close> (reading a
  property of it throws a TypeError), or it is a value whose fields can be read.
\<close>

datatype json_outcome =
    fetch_rejected
  | json_rejected
  | json_null
  | json_data APIResponse

text \<open>The clear request awaits the fetch only; the response is never read.\<close>

record Response =
  status :: nat
  body_text :: string

datatype fetch_outcome = rejected | resolved Response

section \<open>Hydration on load\<close>

definition fetchHistory_request :: request where
  "fetchHistory_request =
     \<lparr>url = ''http://localhost:5000/api/medical'', http_method = ''GET'',
      body = None, credentials = ''include''\<rparr>"

text \<open>
  The two \<^verbatim>\<open>.then\<close> and the \<^verbatim>\<open>.catch\<close> of the effect that runs on mount:
  \<^verbatim>\<open>setHistory(data.history || [])\<close>, \<^verbatim>\<open>setLatestResponse(data.latest_response)\<close>, and
  on any rejection \<^verbatim>\<open>console.error("Failed to load history:", err)\<close>.
\<close>

fun fetchHistory_settled :: "page_state \<Rightarrow> json_outcome \<Rightarrow> page_state \<times> effect list" where
  "fetchHistory_settled s (json_data d) =
     (s\<lparr>history := (case data_history d of Some h \<Rightarrow> h | None \<Rightarrow> []),
        latestResponse := data_latest_response d\<rparr>, [])"
| "fetchHistory_settled s _ = (s, [console_error ''Failed to load history:''])"

section \<open>Voice input\<close>

text \<open>
  \<^verbatim>\<open>toggleVoice\<close>; the first argument says whether \<^verbatim>\<open>window.SpeechRecognition\<close> or
  \<^verbatim>\<open>window.webkitSpeechRecognition\<close> exists.
\<close>

definition toggleVoice :: "bool \<Rightarrow> page_state \<Rightarrow> page_state \<times> effect list" where
  "toggleVoice supported s =
     (if \<not> supported then (s, [alert ''Browser does not support speech recognition.''])
      else if isListening s then (s\<lparr>isListening := False\<rparr>, [])
      else (s, [recognition_start
                  \<lparr>rec_lang = lang s, interimResults = False, maxAlternatives = 1\<rparr>]))"

text \<open>
  The callbacks registered on the recognition object. A result event carries
  \<^verbatim>\<open>event.results\<close>: a list of results, each a list of alternatives, of which the
  transcript is kept here. \<^verbatim>\<open>event.results[0][0].transcript\<close> throws inside the
  callback when there is no first result or no first alternative, and then no state
  cell is written.
\<close>

datatype recognition_event = onstart | onend | onresult "string list list"

fun recognition_callback :: "page_state \<Rightarrow> recognition_event \<Rightarrow> page_state" where
  "recognition_callback s onstart = s\<lparr>isListening := True\<rparr>"
| "recognition_callback s onend = s\<lparr>isListening := False\<rparr>"
| "recognition_callback s (onresult ((transcript # _) # _)) = s\<lparr>query := transcript\<rparr>"
| "recognition_callback s (onresult _) = s"

text \<open>The arguments of the \<^verbatim>\<open>setQuery\<close> calls a callback makes.\<close>

fun setQuery_calls :: "recognition_event \<Rightarrow> string list" where
  "setQuery_calls (onresult ((transcript # _) # _)) = [transcript]"
| "setQuery_calls _ = []"

text \<open>
  A listening session: the callbacks the engine fires, in order. The result is the state
  and the transcripts written into the query text on the way.
\<close>

fun listening_session :: "page_state \<Rightarrow> recognition_event list \<Rightarrow> page_state \<times> string list" where
  "listening_session s [] = (s, [])"
| "listening_session s (e # es) =
     (case listening_session (recognition_callback s e) es of
        (s', written) \<Rightarrow> (s', setQuery_calls e @ written))"

section \<open>Submitting a turn\<close>

text \<open>
  The \<^verbatim>\<open>FormData\<close> built by \<^verbatim>\<open>handleSubmit\<close>: the fields in the order of the
  \<^verbatim>\<open>append\<close> calls.
\<close>

definition formData :: "string \<Rightarrow> AttachedFile option \<Rightarrow> FormData" where
  "formData q a =
     (''query'', text_value q) #
     (case a of
        None \<Rightarrow> []
      | Some af \<Rightarrow>
          (if file_type af = image_file then [(''image'', file_value (file_handle af))]
           else [(''document'', file_value (file_handle af))]))"

definition submit_request :: "FormData \<Rightarrow> request" where
  "submit_request fd =
     \<lparr>url = ''http://localhost:5000/api/medical'', http_method = ''POST'',
      body = Some fd, credentials = ''include''\<rparr>"

text \<open>
  \<^verbatim>\<open>handleSubmit\<close> up to its \<^verbatim>\<open>await fetch\<close>. \<^verbatim>\<open>!query\<close> holds of the empty string
  only, \<^verbatim>\<open>!attachedFile\<close> of \<^verbatim>\<open>null\<close> only. The second component is the request
  sent, if any.
\<close>

definition handleSubmit :: "page_state \<Rightarrow> page_state \<times> request option" where
  "handleSubmit s =
     (if query s = [] \<and> attachedFile s = None then (s, None)
      else
        (s\<lparr>isLoading := True,
           history := history s @ [\<lparr>msg_type = human, content = query s\<rparr>]\<rparr>,
         Some (submit_request (formData (query s) (attachedFile s)))))"

text \<open>
  The rest of \<^verbatim>\<open>handleSubmit\<close>, run when the request settles: the body of the
  \<^verbatim>\<open>try\<close> after the two awaits, the \<^verbatim>\<open>catch\<close>, and the \<^verbatim>\<open>finally\<close>.
\<close>

fun handleSubmit_settled :: "page_state \<Rightarrow> json_outcome \<Rightarrow> page_state \<times> effect list" where
  "handleSubmit_settled s (json_data d) =
     (let s1 = (case data_history d of Some h \<Rightarrow> s\<lparr>history := h\<rparr> | None \<Rightarrow> s);
          s2 = (case data_latest_response d of
                  Some r \<Rightarrow> s1\<lparr>latestResponse := Some r\<rparr>
                | None \<Rightarrow> s1)
      in (s2\<lparr>query := [], attachedFile := None, isLoading := False\<rparr>, []))"
| "handleSubmit_settled s _ =
     (s\<lparr>isLoading := False\<rparr>, [console_error ''Error submitting query:''])"

section \<open>Clearing the chat\<close>

definition clear_request :: request where
  "clear_request =
     \<lparr>url = ''http://localhost:5000/api/medical/clear'', http_method = ''POST'',
      body = None, credentials = ''include''\<rparr>"

text \<open>
  \<^verbatim>\<open>clearChat\<close> sends the request at once and touches no state before the
  \<^verbatim>\<open>await\<close>. When the fetch resolves, whatever the response, both cells are reset;
  when it rejects, the \<^verbatim>\<open>await\<close> throws out of the function and nothing is written.
\<close>

definition clearChat :: "page_state \<Rightarrow> page_state \<times> effect list" where
  "clearChat s = (s, [fetch clear_request])"

fun clearChat_settled :: "page_state \<Rightarrow> fetch_outcome \<Rightarrow> page_state" where
  "clearChat_settled s (resolved r) = s\<lparr>history := [], latestResponse := None\<rparr>"
| "clearChat_settled s rejected = s"

section \<open>The page as an event-driven machine\<close>

text \<open>
  The submit button is rendered with \<^verbatim>\<open>disabled={isLoading}\<close>. A form whose submit
  button is disabled is not submitted, neither by a click on the button nor by the Enter
  key in the text field, so \<^verbatim>\<open>handleSubmit\<close> does not run then.
\<close>

definition submit_disabled :: "page_state \<Rightarrow> bool" where
  "submit_disabled s = isLoading s"

text \<open>
  Besides the page state, the world holds what is under way outside the component: the
  submit requests not yet settled, the number of clear requests not yet settled, whether
  the history request of the mount effect is still open, and the number of recognition
  objects started so far.
\<close>

record world =
  page :: page_state
  submits_in_flight :: "request list"
  clears_in_flight :: nat
  history_in_flight :: bool
  recognitions :: nat

definition initial_world :: world where
  "initial_world =
     \<lparr>page = initial_state, submits_in_flight = [], clears_in_flight = 0,
      history_in_flight = True, recognitions = 0\<rparr>"

text \<open>
  The events the single thread handles one at a time: the user's actions on the rendered
  controls, the callbacks of a recognition object, and the settling of a request. A file
  input's change event carries the chosen file, if any; a click on the voice button
  carries whether the browser has a recognition engine; a settled submit names the
  request it answers by its position among the open ones.
\<close>

datatype event =
    input_change string
  | image_input_change "File option"
  | doc_input_change "File option"
  | lang_change string
  | plus_click
  | upload_option_click
  | voice_click bool
  | recognition_fires recognition_event
  | form_submit
  | submit_settles nat json_outcome
  | clear_click
  | clear_settles fetch_outcome
  | history_settles json_outcome

fun step :: "world \<Rightarrow> event \<Rightarrow> world" where
  "step w (input_change v) = w\<lparr>page := (page w)\<lparr>query := v\<rparr>\<rparr>"
| "step w (image_input_change fo) =
     (case fo of
        None \<Rightarrow> w
      | Some f \<Rightarrow>
          w\<lparr>page := (page w)\<lparr>attachedFile := Some \<lparr>file_handle = f, file_type = image_file\<rparr>\<rparr>\<rparr>)"
| "step w (doc_input_change fo) =
     (case fo of
        None \<Rightarrow> w
      | Some f \<Rightarrow>
          w\<lparr>page := (page w)\<lparr>attachedFile := Some \<lparr>file_handle = f, file_type = doc_file\<rparr>\<rparr>\<rparr>)"
| "step w (lang_change l) = w\<lparr>page := (page w)\<lparr>lang := l\<rparr>\<rparr>"
| "step w plus_click = w\<lparr>page := (page w)\<lparr>showUploadMenu := \<not> showUploadMenu (page w)\<rparr>\<rparr>"
| "step w upload_option_click = w\<lparr>page := (page w)\<lparr>showUploadMenu := False\<rparr>\<rparr>"
| "step w (voice_click supported) =
     (case toggleVoice supported (page w) of
        (s', effs) \<Rightarrow>
          w\<lparr>page := s',
            recognitions :=
              recognitions w + length (filter (\<lambda>e. case e of recognition_start _ \<Rightarrow> True | _ \<Rightarrow> False) effs)\<rparr>)"
| "step w (recognition_fires e) =
     (if recognitions w = 0 then w else w\<lparr>page := recognition_callback (page w) e\<rparr>)"
| "step w form_submit =
     (if submit_disabled (page w) then w
      else
        (case handleSubmit (page w) of
           (s', None) \<Rightarrow> w\<lparr>page := s'\<rparr>
         | (s', Some r) \<Rightarrow> w\<lparr>page := s', submits_in_flight := submits_in_flight w @ [r]\<rparr>))"
| "step w (submit_settles i out) =
     (if i < length (submits_in_flight w)
      then w\<lparr>page := fst (handleSubmit_settled (page w) out),
             submits_in_flight := take i (submits_in_flight w) @ drop (Suc i) (submits_in_flight w)\<rparr>
      else w)"
| "step w clear_click =
     w\<lparr>page := fst (clearChat (page w)), clears_in_flight := Suc (clears_in_flight w)\<rparr>"
| "step w (clear_settles out) =
     (if clears_in_flight w = 0 then w
      else w\<lparr>page := clearChat_settled (page w) out, clears_in_flight := clears_in_flight w - 1\<rparr>)"
| "step w (history_settles out) =
     (if history_in_flight w
      then w\<lparr>page := fst (fetchHistory_settled (page w) out), history_in_flight := False\<rparr>
      else w)"

definition run :: "event list \<Rightarrow> world" where
  "run evs = foldl step initial_world evs"

text \<open>The number of fields of a given name in a payload (\<^verbatim>\<open>getAll(name).length\<close>).\<close>

definition field_count :: "string \<Rightarrow> FormData \<Rightarrow> nat" where
  "field_count n fd = length (filter (\<lambda>p. fst p = n) fd)"

text \<open>The outcomes that take \<^verbatim>\<open>handleSubmit\<close> into its \<^verbatim>\<open>catch\<close> block.\<close>

fun failed :: "json_outcome \<Rightarrow> bool" where
  "failed (json_data d) = False"
| "failed _ = True"

text \<open>
  The invariant of the machine: a submit request is open exactly while \<^verbatim>\<open>isLoading\<close>
  is set, and then it is the only one.
\<close>

definition single_flight :: "world \<Rightarrow> bool" where
  "single_flight w =
     (length (submits_in_flight w) = (if isLoading (page w) then 1 else 0))"

subsection \<open>What the page relies on from the speech engine\<close>

text \<open>
  The engine is the browser's, not the page's: the page sets the recognition object's
  fields, starts it and receives its callbacks. A callback is a result event when it is
  \<^verbatim>\<open>onresult\<close>, and it carries a transcript when \<^verbatim>\<open>event.results[0][0]\<close> exists.
\<close>

fun is_result :: "recognition_event \<Rightarrow> bool" where
  "is_result (onresult _) = True"
| "is_result _ = False"


text \<open>
  The engine's side of the settings: the page never sets \<^verbatim>\<open>continuous\<close>, so the engine
  recognises one utterance per start and returns one final result at most; with
  \<^verbatim>\<open>interimResults\<close> off it returns no interim result before it. A session's callbacks
  honour the settings when, interim results being off, at most one of them is a result
  event. With interim results on, any number may be.
\<close>

definition honours_settings :: "recognition \<Rightarrow> recognition_event list \<Rightarrow> bool" where
  "honours_settings cfg evs = (interimResults cfg \<or> length (filter is_result evs) \<le> 1)"



subsection \<open>Concrete inputs\<close>

text \<open>
  A page that shows an earlier answer and has a question typed in; a response that
  carries a history and no \<^verbatim>\<open>latest_response\<close>; a page that shows a question and its
  answer; a page with an image attached and nothing typed.
\<close>

definition stale_answer_state :: page_state where
  "stale_answer_state =
     initial_state
       \<lparr>latestResponse :=
          Some \<lparr>answer = ''old answer'', thoughts = [], validation = [], source = []\<rparr>,
        query := ''What is diabetes?''\<rparr>"

definition answerless_response :: APIResponse where
  "answerless_response =
     \<lparr>data_history =
        Some [\<lparr>msg_type = human, content = ''What is diabetes?''\<rparr>,
              \<lparr>msg_type = ai, content = ''A chronic condition.''\<rparr>],
      data_latest_response = None\<rparr>"

definition answered_state :: page_state where
  "answered_state =
     initial_state
       \<lparr>history :=
          [\<lparr>msg_type = human, content = ''What is diabetes?''\<rparr>,
           \<lparr>msg_type = ai, content = ''A chronic condition.''\<rparr>],
        latestResponse :=
          Some \<lparr>answer = ''A chronic condition.'', thoughts = [], validation = [], source = []\<rparr>\<rparr>"

definition scan_attached :: page_state where
  "scan_attached =
     initial_state
       \<lparr>attachedFile :=
          Some \<lparr>file_handle = \<lparr>file_name = ''scan.png''\<rparr>, file_type = image_file\<rparr>\<rparr>"

section \<open>Auxiliary facts\<close>

lemma recognition_callback_isLoading:
  "isLoading (recognition_callback s e) = isLoading s"
  by (cases "(s, e)" rule: recognition_callback.cases) simp_all

lemma handleSubmit_settled_isLoading:
  "isLoading (fst (handleSubmit_settled s out)) = False"
  by (cases out) (simp_all add: Let_def split: option.splits)

lemma handleSubmit_sent_isLoading:
  "handleSubmit s = (s', Some r) \<Longrightarrow> isLoading s'"
  by (auto simp: handleSubmit_def split: if_splits)

lemma handleSubmit_unsent_same:
  "handleSubmit s = (s', None) \<Longrightarrow> s' = s"
  by (auto simp: handleSubmit_def split: if_splits)

lemma single_flight_initial: "single_flight initial_world"
  by (simp add: single_flight_def initial_world_def initial_state_def)

lemma single_flight_step:
  assumes "single_flight w"
  shows "single_flight (step w e)"
proof (cases e)
  case form_submit
  show ?thesis
  proof (cases "submit_disabled (page w)")
    case True
    with assms form_submit show ?thesis by simp
  next
    case False
    then have idle: "submits_in_flight w = []"
      using assms by (simp add: single_flight_def submit_disabled_def)
    obtain s' ro where hs: "handleSubmit (page w) = (s', ro)"
      by (cases "handleSubmit (page w)")
    show ?thesis
    proof (cases ro)
      case None
      with hs have "s' = page w" by (simp add: handleSubmit_unsent_same)
      with None hs False form_submit assms show ?thesis
        by (simp add: single_flight_def)
    next
      case (Some r)
      with hs have "isLoading s'" by (simp add: handleSubmit_sent_isLoading)
      with Some hs False form_submit idle show ?thesis
        by (simp add: single_flight_def)
    qed
  qed
next
  case (submit_settles i out)
  show ?thesis
  proof (cases "i < length (submits_in_flight w)")
    case True
    then have "length (submits_in_flight w) = 1" and "i = 0"
      using assms by (auto simp: single_flight_def split: if_splits)
    with True submit_settles show ?thesis
      by (simp add: single_flight_def handleSubmit_settled_isLoading)
  next
    case False
    with assms submit_settles show ?thesis by simp
  qed
next
  case (voice_click supported)
  with assms show ?thesis
    by (auto simp: single_flight_def toggleVoice_def)
next
  case (recognition_fires ev)
  with assms show ?thesis
    by (auto simp: single_flight_def recognition_callback_isLoading split: if_splits)
next
  case (clear_settles out)
  with assms show ?thesis
    by (cases out) (auto simp: single_flight_def)
next
  case (history_settles out)
  with assms show ?thesis
    by (cases out) (auto simp: single_flight_def)
qed (use assms in \<open>auto simp: single_flight_def clearChat_def split: option.splits\<close>)

lemma single_flight_foldl:
  "single_flight w \<Longrightarrow> single_flight (foldl step w evs)"
  by (induction evs arbitrary: w) (simp_all add: single_flight_step)

lemma single_flight_run: "single_flight (run evs)"
  by (simp add: run_def single_flight_foldl single_flight_initial)

lemma not_image_file: "(t \<noteq> image_file) = (t = doc_file)"
  by (cases t) simp_all

lemma formData_fields:
  "field_count ''query'' (formData q a) = 1"
  "field_count ''image'' (formData q a)
     = (case a of None \<Rightarrow> 0 | Some af \<Rightarrow> if file_type af = image_file then 1 else 0)"
  "field_count ''document'' (formData q a)
     = (case a of None \<Rightarrow> 0 | Some af \<Rightarrow> if file_type af = image_file then 0 else 1)"
  by (cases a; simp add: formData_def field_count_def)+

lemma handleSubmit_body:
  "snd (handleSubmit s) = Some r \<Longrightarrow> body r = Some (formData (query s) (attachedFile s))"
  by (auto simp: handleSubmit_def submit_request_def split: if_splits)

lemma handleSubmit_sent:
  "snd (handleSubmit s) \<noteq> None \<Longrightarrow>
   fst (handleSubmit s)
     = s\<lparr>isLoading := True,
         history := history s @ [\<lparr>msg_type = human, content = query s\<rparr>]\<rparr>"
  by (auto simp: handleSubmit_def split: if_splits)

lemma handleSubmit_settled_failed:
  "failed out \<Longrightarrow>
   handleSubmit_settled s out = (s\<lparr>isLoading := False\<rparr>, [console_error ''Error submitting query:''])"
  by (cases out) simp_all

text \<open>
  \<^verbatim>\<open>handleSubmit\<close> itself does not look at \<^verbatim>\<open>isLoading\<close>: called while a request
  is open it would send another. The guard is the disabled button alone.
\<close>

lemma handleSubmit_ignores_isLoading:
  "snd (handleSubmit (s\<lparr>isLoading := True\<rparr>)) = snd (handleSubmit s)"
  by (simp add: handleSubmit_def)

lemma stale_answer_state_simps:
  "query stale_answer_state = ''What is diabetes?''"
  "attachedFile stale_answer_state = None"
  "history stale_answer_state = []"
  "latestResponse stale_answer_state
     = Some \<lparr>answer = ''old answer'', thoughts = [], validation = [], source = []\<rparr>"
  by (simp_all add: stale_answer_state_def initial_state_def)


subsection \<open>Listening sessions\<close>












text \<open>
  The setting matters: with interim results on, a session that honours the settings can
  carry two result events, and both transcripts are written.
\<close>

lemma interim_results_would_write_more:
  "honours_settings \<lparr>rec_lang = l, interimResults = True, maxAlternatives = 1\<rparr>
     [onstart, onresult [[a]], onresult [[b]], onend]
   \<and> snd (listening_session s [onstart, onresult [[a]], onresult [[b]], onend]) = [a, b]"
  by (simp add: honours_settings_def)

section \<open>The claims\<close>

subsection \<open>Optimistic append, then the server's history\<close>

text \<open>
  Claim C1, as the code has it. A submission with non-empty text and no attachment appends
  one human message to the history at once, before the request settles, and sends the
  request. When the response then carries a history, the history becomes exactly that
  one, of the same length: the optimistic entry is replaced with everything else, nothing
  is appended on top. The latest answer becomes the response's \<^verbatim>\<open>latest_response\<close> when
  the response carries one; when it carries none, the latest answer keeps the value it had
  before the submission, because \<^verbatim>\<open>setLatestResponse\<close> stands under
  \<^verbatim>\<open>if (data.latest_response)\<close>.
\<close>

theorem submit_optimistic_then_reconcile:
  assumes "query s \<noteq> []" and "attachedFile s = None" and "data_history d = Some h"
  shows "history (fst (handleSubmit s)) = history s @ [\<lparr>msg_type = human, content = query s\<rparr>]
    \<and> length (history (fst (handleSubmit s))) = Suc (length (history s))
    \<and> snd (handleSubmit s) = Some (submit_request [(''query'', text_value (query s))])
    \<and> history (fst (handleSubmit_settled (fst (handleSubmit s)) (json_data d))) = h
    \<and> length (history (fst (handleSubmit_settled (fst (handleSubmit s)) (json_data d)))) = length h
    \<and> latestResponse (fst (handleSubmit_settled (fst (handleSubmit s)) (json_data d)))
        = (case data_latest_response d of Some r \<Rightarrow> Some r | None \<Rightarrow> latestResponse s)"
  using assms
  by (auto simp: handleSubmit_def formData_def Let_def split: option.splits)

theorem submit_optimistic_then_reconcile_witness:
  "query stale_answer_state \<noteq> [] \<and> attachedFile stale_answer_state = None
   \<and> data_history answerless_response
       = Some [\<lparr>msg_type = human, content = ''What is diabetes?''\<rparr>,
               \<lparr>msg_type = ai, content = ''A chronic condition.''\<rparr>]
   \<and> length (history (fst (handleSubmit stale_answer_state))) = 1
   \<and> length (history (fst (handleSubmit_settled (fst (handleSubmit stale_answer_state))
        (json_data answerless_response)))) = 2
   \<and> latestResponse (fst (handleSubmit_settled (fst (handleSubmit stale_answer_state))
        (json_data answerless_response)))
       = Some \<lparr>answer = ''old answer'', thoughts = [], validation = [], source = []\<rparr>"
proof -
  have q: "query stale_answer_state \<noteq> []" and a: "attachedFile stale_answer_state = None"
    by (simp_all add: stale_answer_state_simps)
  have h: "data_history answerless_response
       = Some [\<lparr>msg_type = human, content = ''What is diabetes?''\<rparr>,
               \<lparr>msg_type = ai, content = ''A chronic condition.''\<rparr>]"
    and l: "data_latest_response answerless_response = None"
    by (simp_all add: answerless_response_def)
  from submit_optimistic_then_reconcile [OF q a h] l q a h show ?thesis
    by (simp add: stale_answer_state_simps)
qed

text \<open>
  The claim as written says that the latest answer equals the response's
  \<^verbatim>\<open>latest_response\<close>. On a page that shows an earlier answer, a response with a history
  and no \<^verbatim>\<open>latest_response\<close> leaves the earlier answer in place.
\<close>

theorem submit_latest_not_replaced:
  "query stale_answer_state \<noteq> [] \<and> attachedFile stale_answer_state = None
   \<and> data_history answerless_response \<noteq> None
   \<and> latestResponse
        (fst (handleSubmit_settled (fst (handleSubmit stale_answer_state))
           (json_data answerless_response)))
      \<noteq> data_latest_response answerless_response"
  by (simp add: stale_answer_state_def answerless_response_def initial_state_def
      handleSubmit_def)

subsection \<open>One submission at a time\<close>

text \<open>
  Claim C2. In every state the page can reach, at most one submit request is open. While
  \<^verbatim>\<open>isLoading\<close> is set exactly one is open, and a further submission of the form is
  turned away by the disabled button: it changes nothing and opens no second request.
\<close>

theorem no_overlapping_submissions:
  "length (submits_in_flight (run evs)) \<le> 1
   \<and> (isLoading (page (run evs)) \<longrightarrow>
        length (submits_in_flight (run evs)) = 1
        \<and> step (run evs) form_submit = run evs)"
  using single_flight_run [of evs]
  by (simp add: single_flight_def submit_disabled_def)

theorem no_overlapping_submissions_witness:
  "isLoading (page (run [input_change ''What is diabetes?'', form_submit]))
   \<and> length (submits_in_flight (run [input_change ''What is diabetes?'', form_submit])) = 1
   \<and> run [input_change ''What is diabetes?'', form_submit, form_submit]
       = run [input_change ''What is diabetes?'', form_submit]"
proof -
  have l: "isLoading (page (run [input_change ''What is diabetes?'', form_submit]))"
    by (simp add: run_def initial_world_def initial_state_def submit_disabled_def
        handleSubmit_def)
  have r: "run [input_change ''What is diabetes?'', form_submit, form_submit]
      = step (run [input_change ''What is diabetes?'', form_submit]) form_submit"
    by (simp add: run_def)
  from no_overlapping_submissions [of "[input_change ''What is diabetes?'', form_submit]"] l r
  show ?thesis by simp
qed

subsection \<open>A failed submission\<close>

text \<open>
  Claim C3. When a submission was sent and its request fails (the fetch rejects, the body
  is not JSON, or it is \<^verbatim>\<open>null\<close>), nothing is rolled back: the history is the one from
  before with the human entry appended as its last element, no assistant entry after it,
  and the latest answer is the one from before the submission. The state differs from the
  one before the submission in that entry only.
\<close>

theorem submit_failure_no_rollback:
  assumes "snd (handleSubmit s) \<noteq> None" and "failed out"
  shows "history (fst (handleSubmit_settled (fst (handleSubmit s)) out))
           = history s @ [\<lparr>msg_type = human, content = query s\<rparr>]
    \<and> last (history (fst (handleSubmit_settled (fst (handleSubmit s)) out)))
        = \<lparr>msg_type = human, content = query s\<rparr>
    \<and> latestResponse (fst (handleSubmit_settled (fst (handleSubmit s)) out)) = latestResponse s
    \<and> fst (handleSubmit_settled (fst (handleSubmit s)) out)
        = s\<lparr>history := history s @ [\<lparr>msg_type = human, content = query s\<rparr>],
            isLoading := False\<rparr>
    \<and> snd (handleSubmit_settled (fst (handleSubmit s)) out)
        = [console_error ''Error submitting query:'']"
  using assms by (simp add: handleSubmit_sent handleSubmit_settled_failed)

theorem submit_failure_no_rollback_witness:
  "snd (handleSubmit stale_answer_state) \<noteq> None \<and> failed fetch_rejected
   \<and> history (fst (handleSubmit_settled (fst (handleSubmit stale_answer_state)) fetch_rejected))
       = [\<lparr>msg_type = human, content = ''What is diabetes?''\<rparr>]
   \<and> latestResponse (fst (handleSubmit_settled (fst (handleSubmit stale_answer_state)) fetch_rejected))
       = Some \<lparr>answer = ''old answer'', thoughts = [], validation = [], source = []\<rparr>"
proof -
  have sent: "snd (handleSubmit stale_answer_state) \<noteq> None"
    by (simp add: handleSubmit_def stale_answer_state_simps)
  have f: "failed fetch_rejected" by simp
  from submit_failure_no_rollback [OF sent f] sent show ?thesis
    by (simp add: stale_answer_state_simps)
qed

subsection \<open>Nothing to send\<close>

text \<open>
  Claim C4. \<^verbatim>\<open>handleSubmit\<close> sends a request exactly when the query text is not empty
  or a file is attached. With empty text and no file it returns at once: no request, and
  the whole state (history, latest answer, attachment and query among it) is as before,
  also when the submission comes through the form.
\<close>

theorem submit_sent_iff_nonempty:
  "(snd (handleSubmit s) \<noteq> None) = (query s \<noteq> [] \<or> attachedFile s \<noteq> None)
   \<and> (query s = [] \<and> attachedFile s = None \<longrightarrow> handleSubmit s = (s, None))
   \<and> (query (page w) = [] \<and> attachedFile (page w) = None \<longrightarrow> step w form_submit = w)"
  by (auto simp: handleSubmit_def)

theorem submit_sent_iff_nonempty_witness:
  "query initial_state = [] \<and> attachedFile initial_state = None
   \<and> handleSubmit initial_state = (initial_state, None)
   \<and> query (page initial_world) = [] \<and> attachedFile (page initial_world) = None
   \<and> step initial_world form_submit = initial_world
   \<and> snd (handleSubmit stale_answer_state) \<noteq> None
   \<and> snd (handleSubmit scan_attached) \<noteq> None"
proof -
  have e: "query initial_state = []" "attachedFile initial_state = None"
    "query (page initial_world) = []" "attachedFile (page initial_world) = None"
    by (simp_all add: initial_state_def initial_world_def)
  have n: "query stale_answer_state \<noteq> []" "attachedFile scan_attached \<noteq> None"
    by (simp_all add: stale_answer_state_simps scan_attached_def)
  from submit_sent_iff_nonempty [of initial_state initial_world]
    submit_sent_iff_nonempty [of stale_answer_state initial_world]
    submit_sent_iff_nonempty [of scan_attached initial_world] e n
  show ?thesis by simp
qed

subsection \<open>Clearing\<close>

text \<open>
  Claim C5, as the code has it. \<^verbatim>\<open>clearChat\<close> issues the clear request (a credentialed
  POST to the clear path, with no body) and changes nothing before the request settles.
  When the request resolves, the history is empty and the latest answer absent, for every
  response it resolves with: status and body are never read. Clearing a state that is
  already cleared issues the same request again and gives the same cleared state. When
  the fetch rejects, the \<^verbatim>\<open>await\<close> throws, there is no \<^verbatim>\<open>try\<close> around it, and nothing
  is reset: the state is the one from before.
\<close>

theorem clear_resets_and_is_idempotent:
  "snd (clearChat s)
     = [fetch \<lparr>url = ''http://localhost:5000/api/medical/clear'', http_method = ''POST'',
               body = None, credentials = ''include''\<rparr>]
   \<and> fst (clearChat s) = s
   \<and> clearChat_settled (fst (clearChat s)) (resolved r) = s\<lparr>history := [], latestResponse := None\<rparr>
   \<and> history (clearChat_settled (fst (clearChat s)) (resolved r)) = []
   \<and> latestResponse (clearChat_settled (fst (clearChat s)) (resolved r)) = None
   \<and> snd (clearChat (clearChat_settled (fst (clearChat s)) (resolved r))) = snd (clearChat s)
   \<and> clearChat_settled (fst (clearChat (clearChat_settled (fst (clearChat s)) (resolved r)))) (resolved r')
       = clearChat_settled (fst (clearChat s)) (resolved r)
   \<and> clearChat_settled (fst (clearChat s)) rejected = s"
  by (simp add: clearChat_def clear_request_def)

text \<open>
  The claim as written says that clearing always ends with an empty history and no latest
  answer. On a page that shows a question and its answer, a clear request whose fetch
  rejects leaves both in place.
\<close>

theorem clear_rejected_resets_nothing:
  "snd (clearChat answered_state) = [fetch clear_request]
   \<and> history (clearChat_settled (fst (clearChat answered_state)) rejected) \<noteq> []
   \<and> latestResponse (clearChat_settled (fst (clearChat answered_state)) rejected) \<noteq> None"
  by (simp add: clearChat_def answered_state_def initial_state_def)

subsection \<open>Hydration\<close>

text \<open>
  Claim C6. A hydrate response with history \<open>[m1, m2]\<close> and latest response \<open>r\<close> (present
  or absent) makes the history exactly \<open>[m1, m2]\<close> and the latest answer \<open>r\<close>; so does any
  other history the response carries. When the request fails, the state is left as it
  was, which on load is the empty one (no history, no latest answer), and the only effect
  is a message on the console: no alert.
\<close>

theorem hydration:
  "fetchHistory_settled s (json_data \<lparr>data_history = Some [m1, m2], data_latest_response = r\<rparr>)
     = (s\<lparr>history := [m1, m2], latestResponse := r\<rparr>, [])
   \<and> fetchHistory_settled s (json_data \<lparr>data_history = Some h, data_latest_response = r\<rparr>)
     = (s\<lparr>history := h, latestResponse := r\<rparr>, [])
   \<and> (failed out \<longrightarrow>
        fetchHistory_settled s out = (s, [console_error ''Failed to load history:''])
        \<and> history (fst (fetchHistory_settled initial_state out)) = []
        \<and> latestResponse (fst (fetchHistory_settled initial_state out)) = None)"
  by (cases out) (simp_all add: initial_state_def)

theorem hydration_witness:
  "failed fetch_rejected
   \<and> fetchHistory_settled initial_state fetch_rejected
       = (initial_state, [console_error ''Failed to load history:''])
   \<and> history (fst (fetchHistory_settled initial_state fetch_rejected)) = []
   \<and> latestResponse (fst (fetchHistory_settled initial_state fetch_rejected)) = None
   \<and> history (fst (fetchHistory_settled initial_state (json_data answerless_response)))
       = [\<lparr>msg_type = human, content = ''What is diabetes?''\<rparr>,
          \<lparr>msg_type = ai, content = ''A chronic condition.''\<rparr>]"
proof -
  have f: "failed fetch_rejected" by simp
  from hydration [of initial_state
      "\<lparr>msg_type = human, content = ''What is diabetes?''\<rparr>"
      "\<lparr>msg_type = ai, content = ''A chronic condition.''\<rparr>" None "[]" fetch_rejected] f
  show ?thesis
    by (simp add: answerless_response_def)
qed

subsection \<open>The payload\<close>

text \<open>
  Claim C7. The payload of every request \<^verbatim>\<open>handleSubmit\<close> sends has one query field
  and never both an image field and a document field. With no file attached it has
  neither; with a file attached it has exactly one of the two, the image field when the
  attachment's type is image and the document field otherwise.
\<close>

theorem no_dual_attachment:
  assumes "snd (handleSubmit s) = Some r"
  shows "\<exists>fd. body r = Some fd
     \<and> \<not> (0 < field_count ''image'' fd \<and> 0 < field_count ''document'' fd)
     \<and> field_count ''query'' fd = 1
     \<and> (attachedFile s = None \<longrightarrow> field_count ''image'' fd = 0 \<and> field_count ''document'' fd = 0)
     \<and> (\<forall>af. attachedFile s = Some af \<longrightarrow>
          field_count ''image'' fd + field_count ''document'' fd = 1
          \<and> (field_count ''image'' fd = 1) = (file_type af = image_file)
          \<and> (field_count ''document'' fd = 1) = (file_type af = doc_file))"
  using handleSubmit_body [OF assms]
  by (cases "attachedFile s") (simp_all add: formData_fields not_image_file)

theorem no_dual_attachment_witness:
  "snd (handleSubmit scan_attached)
     = Some (submit_request
         [(''query'', text_value []), (''image'', file_value \<lparr>file_name = ''scan.png''\<rparr>)])
   \<and> field_count ''image''
        [(''query'', text_value []), (''image'', file_value \<lparr>file_name = ''scan.png''\<rparr>)] = 1
   \<and> field_count ''document''
        [(''query'', text_value []), (''image'', file_value \<lparr>file_name = ''scan.png''\<rparr>)] = 0"
proof -
  let ?fd = "[(''query'', text_value []), (''image'', file_value \<lparr>file_name = ''scan.png''\<rparr>)]"
  have sent: "snd (handleSubmit scan_attached) = Some (submit_request ?fd)"
    by (simp add: handleSubmit_def scan_attached_def initial_state_def formData_def)
  have att: "attachedFile scan_attached
      = Some \<lparr>file_handle = \<lparr>file_name = ''scan.png''\<rparr>, file_type = image_file\<rparr>"
    by (simp add: scan_attached_def)
  from no_dual_attachment [OF sent] obtain fd where
    b: "body (submit_request ?fd) = Some fd"
    and one: "\<forall>af. attachedFile scan_attached = Some af \<longrightarrow>
          field_count ''image'' fd + field_count ''document'' fd = 1
          \<and> (field_count ''image'' fd = 1) = (file_type af = image_file)
          \<and> (field_count ''document'' fd = 1) = (file_type af = doc_file)"
    by blast
  from b have fd: "fd = ?fd" by (simp add: submit_request_def)
  from one [rule_format, OF att] fd sent show ?thesis by simp
qed

subsection \<open>Voice input\<close>

text \<open>
  Claim C8. When the browser has no speech recognition, a click on the voice button
  raises the alert, a blocking notice, at once and does nothing else: the state is as
  before, so a page that is not listening stays so, and no recognition object is started.
\<close>

theorem voice_unsupported:
  "toggleVoice False s = (s, [alert ''Browser does not support speech recognition.''])
   \<and> (\<not> isListening s \<longrightarrow> \<not> isListening (fst (toggleVoice False s)))
   \<and> recognitions (step w (voice_click False)) = recognitions w"
  by (simp add: toggleVoice_def)

theorem voice_unsupported_witness:
  "\<not> isListening initial_state
   \<and> \<not> isListening (fst (toggleVoice False initial_state))
   \<and> snd (toggleVoice False initial_state)
       = [alert ''Browser does not support speech recognition.'']"
proof -
  have i: "\<not> isListening initial_state" by (simp add: initial_state_def)
  from voice_unsupported [of initial_state initial_world] i show ?thesis by simp
qed



subsection \<open>What a submission leaves in the input\<close>

text \<open>
  Claim C10. Sending a submission does not touch the query text or the attachment. When
  the request fails, the continuation leaves both as they are; when a response was
  received and parsed, it sets the query text to empty and removes the attachment. So
  the two are cleared only after a response.
\<close>

theorem submit_clears_inputs_only_on_success:
  "query (fst (handleSubmit s)) = query s \<and> attachedFile (fst (handleSubmit s)) = attachedFile s
   \<and> (failed out \<longrightarrow>
        query (fst (handleSubmit_settled s1 out)) = query s1
        \<and> attachedFile (fst (handleSubmit_settled s1 out)) = attachedFile s1)
   \<and> (\<not> failed out \<longrightarrow>
        query (fst (handleSubmit_settled s1 out)) = []
        \<and> attachedFile (fst (handleSubmit_settled s1 out)) = None)"
  by (cases out) (simp_all add: handleSubmit_def Let_def split: option.splits)

theorem submit_clears_inputs_only_on_success_witness:
  "failed json_rejected
   \<and> query (fst (handleSubmit_settled (fst (handleSubmit stale_answer_state)) json_rejected))
       = ''What is diabetes?''
   \<and> attachedFile (fst (handleSubmit_settled (fst (handleSubmit scan_attached)) json_rejected))
       = Some \<lparr>file_handle = \<lparr>file_name = ''scan.png''\<rparr>, file_type = image_file\<rparr>
   \<and> \<not> failed (json_data answerless_response)
   \<and> query (fst (handleSubmit_settled (fst (handleSubmit stale_answer_state))
        (json_data answerless_response))) = []
   \<and> attachedFile (fst (handleSubmit_settled (fst (handleSubmit scan_attached))
        (json_data answerless_response))) = None"
proof -
  have f: "failed json_rejected" and g: "\<not> failed (json_data answerless_response)"
    by simp_all
  have att: "attachedFile scan_attached
      = Some \<lparr>file_handle = \<lparr>file_name = ''scan.png''\<rparr>, file_type = image_file\<rparr>"
    by (simp add: scan_attached_def)
  from submit_clears_inputs_only_on_success
      [of stale_answer_state json_rejected "fst (handleSubmit stale_answer_state)"]
    submit_clears_inputs_only_on_success
      [of scan_attached json_rejected "fst (handleSubmit scan_attached)"]
    submit_clears_inputs_only_on_success
      [of stale_answer_state "json_data answerless_response" "fst (handleSubmit stale_answer_state)"]
    submit_clears_inputs_only_on_success
      [of scan_attached "json_data answerless_response" "fst (handleSubmit scan_attached)"]
    f g att
  show ?thesis by (simp add: stale_answer_state_simps)
qed

end
